theory Spec2Isabelle
  imports Complex_Main "HOL-Library.Word" "HOL-Library.Multiset" "HOL-Library.Sublist"
begin

section \<open>Data model\<close>

text \<open>
  A JavaScript string is a sequence of UTF-16 code units.  \<open>str\<close> writes a string
  literal of the source whose characters are all ASCII.
\<close>

type_synonym jsstring = "16 word list"

definition str :: "string \<Rightarrow> jsstring" where
  "str s = map of_char s"

text \<open>
  \<^verbatim>\<open>status: 'To Do' | 'In Progress' | 'Completed'\<close> of \<^verbatim>\<open>interface Task\<close>
  (the same declaration in \<^verbatim>\<open>tasks.tsx\<close>, \<^verbatim>\<open>tasks-simple.tsx\<close> and
  \<^verbatim>\<open>SQLiteService.ts\<close>).
\<close>

datatype status = ToDo | InProgress | Completed

text \<open>
  \<^verbatim>\<open>interface Task { id: number; title: string; status: ... }\<close>.  The field \<^verbatim>\<open>id\<close>
  is named \<open>task_id\<close> here, \<open>id\<close> being the identity function of HOL.  Every id
  the program produces is an integer (a literal, \<^verbatim>\<open>Date.now()\<close> or a rowid).
\<close>

record task =
  task_id :: int
  title :: jsstring
  status :: status

text \<open>\<^verbatim>\<open>const COLUMNS: Task['status'][] = ['To Do', 'In Progress', 'Completed']\<close>\<close>

definition COLUMNS :: "status list" where
  "COLUMNS = [ToDo, InProgress, Completed]"

definition initialTasks :: "task list" where
  "initialTasks =
    [\<lparr>task_id = 1, title = str ''Plan weekly meal prep'', status = ToDo\<rparr>,
     \<lparr>task_id = 2, title = str ''Debug ant trail AI'', status = InProgress\<rparr>,
     \<lparr>task_id = 3, title = str ''Send out team retrospective summary'', status = Completed\<rparr>,
     \<lparr>task_id = 4, title = str ''Buy more honey dew drops'', status = ToDo\<rparr>]"

section \<open>Task store of the screens\<close>

text \<open>
  \<^verbatim>\<open>moveTask\<close> and \<^verbatim>\<open>moveTaskToCompleted\<close> of \<^verbatim>\<open>tasks.tsx\<close>; the functions of
  \<^verbatim>\<open>tasks-simple.tsx\<close> have the same bodies.  The React state \<^verbatim>\<open>tasks\<close> is passed
  in and the argument of \<^verbatim>\<open>setTasks\<close> is returned.
\<close>

definition moveTaskToCompleted :: "task list \<Rightarrow> int \<Rightarrow> task list" where
  "moveTaskToCompleted tasks taskId =
     map (\<lambda>task. if task_id task = taskId then task\<lparr>status := Completed\<rparr> else task) tasks"

definition moveTask :: "task list \<Rightarrow> int \<Rightarrow> status \<Rightarrow> task list" where
  "moveTask tasks taskId newStatus =
     map (\<lambda>task. if task_id task = taskId then task\<lparr>status := newStatus\<rparr> else task) tasks"

text \<open>
  \<^verbatim>\<open>groupedTasks\<close>: \<^verbatim>\<open>COLUMNS.reduce\<close> from the empty object, each step storing the
  filtered task list under the status.
\<close>

definition groupedTasks :: "task list \<Rightarrow> (status \<rightharpoonup> task list)" where
  "groupedTasks tasks =
     foldl (\<lambda>acc st. acc(st \<mapsto> filter (\<lambda>task. status task = st) tasks)) Map.empty COLUMNS"

text \<open>
  \<^verbatim>\<open>String.prototype.trim\<close> removes the code units of the ECMAScript productions
  WhiteSpace (TAB, VT, FF, ZWNBSP and the space separators) and LineTerminator
  (LF, CR, LS, PS) from both ends of the string.
\<close>

definition isWhiteSpace :: "16 word \<Rightarrow> bool" where
  "isWhiteSpace c \<longleftrightarrow>
     c = 0x0009 \<or> c = 0x000A \<or> c = 0x000B \<or> c = 0x000C \<or> c = 0x000D \<or> c = 0x0020 \<or>
     c = 0x00A0 \<or> c = 0x1680 \<or> (0x2000 \<le> c \<and> c \<le> 0x200A) \<or> c = 0x2028 \<or>
     c = 0x2029 \<or> c = 0x202F \<or> c = 0x205F \<or> c = 0x3000 \<or> c = 0xFEFF"

definition trim :: "jsstring \<Rightarrow> jsstring" where
  "trim s = rev (dropWhile isWhiteSpace (rev (dropWhile isWhiteSpace s)))"

text \<open>
  The state of \<^verbatim>\<open>TasksScreen\<close> that the store functions read and write:
  \<^verbatim>\<open>const [tasks, setTasks] = useState<Task[]>(initialTasks)\<close> and
  \<^verbatim>\<open>const [newTaskTitle, setNewTaskTitle] = useState('')\<close>.
\<close>

record screen =
  tasks :: "task list"
  newTaskTitle :: jsstring

definition initialScreen :: screen where
  "initialScreen = \<lparr>tasks = initialTasks, newTaskTitle = []\<rparr>"

text \<open>
  \<^verbatim>\<open>addTask\<close>.  A string is truthy when it is not empty.  \<open>now\<close> is the value that
  \<^verbatim>\<open>Date.now()\<close> returns at the call, a number of milliseconds.
\<close>

definition addTask :: "int \<Rightarrow> screen \<Rightarrow> screen" where
  "addTask now s =
     (if trim (newTaskTitle s) \<noteq> [] then
        (let newTask = \<lparr>task_id = now, title = trim (newTaskTitle s), status = ToDo\<rparr>
         in s\<lparr>tasks := tasks s @ [newTask], newTaskTitle := []\<rparr>)
      else s)"

text \<open>
  The functions that call \<^verbatim>\<open>setTasks\<close> or \<^verbatim>\<open>setNewTaskTitle\<close> are the only ones that
  change the screen's store: typing into the input (\<^verbatim>\<open>onChangeText\<close>), \<^verbatim>\<open>addTask\<close>,
  \<^verbatim>\<open>moveTask\<close> (called by the drag gesture) and \<^verbatim>\<open>moveTaskToCompleted\<close>.
\<close>

datatype action =
    ChangeText jsstring
  | AddTask int
  | MoveTask int status
  | MoveTaskToCompleted int

fun step :: "screen \<Rightarrow> action \<Rightarrow> screen" where
  "step s (ChangeText txt) = s\<lparr>newTaskTitle := txt\<rparr>"
| "step s (AddTask now) = addTask now s"
| "step s (MoveTask taskId newStatus) = s\<lparr>tasks := moveTask (tasks s) taskId newStatus\<rparr>"
| "step s (MoveTaskToCompleted taskId) = s\<lparr>tasks := moveTaskToCompleted (tasks s) taskId\<rparr>"

definition run :: "screen \<Rightarrow> action list \<Rightarrow> screen" where
  "run s acts = foldl step s acts"

section \<open>Drag gesture\<close>

text \<open>\<^verbatim>\<open>Array.prototype.indexOf\<close>: the first index of the element, \<open>-1\<close> when absent.\<close>

fun indexOf_from :: "'a list \<Rightarrow> 'a \<Rightarrow> int \<Rightarrow> int" where
  "indexOf_from [] x i = - 1"
| "indexOf_from (y # ys) x i = (if y = x then i else indexOf_from ys x (i + 1))"

definition indexOf :: "'a list \<Rightarrow> 'a \<Rightarrow> int" where
  "indexOf xs x = indexOf_from xs x 0"

text \<open>An array read \<^verbatim>\<open>xs[i]\<close>: \<open>None\<close> is \<^verbatim>\<open>undefined\<close>, the value out of range.\<close>

definition array_at :: "'a list \<Rightarrow> int \<Rightarrow> 'a option" where
  "array_at xs i = (if 0 \<le> i \<and> i < int (length xs) then Some (xs ! nat i) else None)"

text \<open>
  The value of \<^verbatim>\<open>newIndex\<close> in \<^verbatim>\<open>onPanResponderRelease\<close> after the two tests on
  \<^verbatim>\<open>gestureState.dx\<close>.  The displacement \<open>dx\<close> is a finite number.
\<close>

definition newIndex :: "task \<Rightarrow> real \<Rightarrow> int" where
  "newIndex task dx =
     (let currentIndex = indexOf COLUMNS (status task)
      in if dx > 50 \<and> currentIndex < int (length COLUMNS) - 1 then currentIndex + 1
         else if dx < - 50 \<and> currentIndex > 0 then currentIndex - 1
         else currentIndex)"

text \<open>
  \<^verbatim>\<open>onPanResponderRelease\<close> (the same body in both screens): the call of \<^verbatim>\<open>moveTask\<close>
  it makes, if any, as the pair of the arguments \<^verbatim>\<open>task.id\<close> and \<^verbatim>\<open>COLUMNS[newIndex]\<close>.
  The animation back to the origin and \<^verbatim>\<open>setDraggedTask(null)\<close> follow in every case and
  do not touch the task list.
\<close>

definition onPanResponderRelease :: "task \<Rightarrow> real \<Rightarrow> (int \<times> status option) option" where
  "onPanResponderRelease task dx =
     (if \<bar>dx\<bar> > 50 then
        (if newIndex task dx \<noteq> indexOf COLUMNS (status task)
         then Some (task_id task, array_at COLUMNS (newIndex task dx))
         else None)
      else None)"

section \<open>Persistence adapter: \<^verbatim>\<open>SQLiteService\<close>\<close>

subsection \<open>The library under the service\<close>

text \<open>
  \<^verbatim>\<open>SQLiteService.ts\<close> calls the library \<^verbatim>\<open>expo-sqlite\<close>, which is not part of the
  repository.  The service's functions below take the library as this model of the one
  database file \<^verbatim>\<open>BugGangDB.db\<close> and of the statements the service sends to it, read
  off the SQL text in the source:
  \<^item> \<open>tasks_table\<close> is \<open>None\<close> until \<^verbatim>\<open>CREATE TABLE IF NOT EXISTS tasks\<close> has run; then
    it holds the rows in insertion order and \<open>sequence\<close>, the largest rowid that
    \<^verbatim>\<open>AUTOINCREMENT\<close> has handed out (rowid overflow is not modelled);
  \<^item> \<open>faults\<close> says, for each coming call of the library, whether that call throws
    (\<open>True\<close>); after the end of the list no call throws.  A statement on a missing table
    throws as well.  A call that throws leaves the table as it was.
\<close>

datatype exn =
    NotInitialized \<comment> \<open>\<^verbatim>\<open>new Error('Database not initialized')\<close>\<close>
  | SQLiteError \<comment> \<open>an error thrown by a call of the library\<close>
  | InitFailed exn \<comment> \<open>\<^verbatim>\<open>new Error(`Failed to initialize database: ${error}`)\<close>\<close>

datatype connection = Connection

record db =
  rows :: "task list"
  sequence :: nat

record sys =
  database :: "connection option" \<comment> \<open>the field \<^verbatim>\<open>this.database\<close>, \<open>None\<close> for \<^verbatim>\<open>null\<close>\<close>
  tasks_table :: "db option"
  faults :: "bool list"

text \<open>The service object as constructed (\<^verbatim>\<open>database = null\<close>), on a system with no database file.\<close>

definition newService :: sys where
  "newService = \<lparr>database = None, tasks_table = None, faults = []\<rparr>"

text \<open>
  A service with an open connection to a table of the four initial tasks, at a moment when
  the next call of the library throws.
\<close>

definition failingService :: sys where
  "failingService =
     \<lparr>database = Some Connection,
      tasks_table = Some \<lparr>rows = initialTasks, sequence = 4\<rparr>, faults = [True]\<rparr>"

text \<open>
  An asynchronous function of the service, awaited by its caller: from the state to the
  value it resolves to (\<open>Inr\<close>) or the error it rejects with (\<open>Inl\<close>), and the new state.
  \<open>resolve\<close> is \<^verbatim>\<open>return\<close>, \<open>throw\<close> is \<^verbatim>\<open>throw\<close>, \<open>await m k\<close> runs \<open>k\<close> on the value
  of \<open>m\<close> and passes an error of \<open>m\<close> on, and \<open>try_catch\<close> is \<^verbatim>\<open>try { ... } catch (error) { ... }\<close>.
\<close>

type_synonym 'a promise = "sys \<Rightarrow> (exn + 'a) \<times> sys"

definition resolve :: "'a \<Rightarrow> 'a promise" where
  "resolve v s = (Inr v, s)"

definition throw :: "exn \<Rightarrow> 'a promise" where
  "throw e s = (Inl e, s)"

definition await :: "'a promise \<Rightarrow> ('a \<Rightarrow> 'b promise) \<Rightarrow> 'b promise" where
  "await m k s = (case m s of (Inl e, s') \<Rightarrow> (Inl e, s') | (Inr v, s') \<Rightarrow> k v s')"

definition try_catch :: "'a promise \<Rightarrow> (exn \<Rightarrow> 'a promise) \<Rightarrow> 'a promise" where
  "try_catch body handler s =
     (case body s of (Inl e, s') \<Rightarrow> handler e s' | (Inr v, s') \<Rightarrow> (Inr v, s'))"

text \<open>
  A call of the library takes the head of \<open>faults\<close>.  It throws when the head is \<open>True\<close>;
  otherwise the statement \<open>stmt\<close> runs on the table and returns a value and the new table,
  or throws.  \<open>on_table\<close> is a statement that needs the table to exist.
\<close>

definition lib_call :: "(db option \<Rightarrow> exn + 'a \<times> db option) \<Rightarrow> 'a promise" where
  "lib_call stmt s =
     (case faults s of
        True # fs \<Rightarrow> (Inl SQLiteError, s\<lparr>faults := fs\<rparr>)
      | _ \<Rightarrow>
        (case stmt (tasks_table s) of
           Inl e \<Rightarrow> (Inl e, s\<lparr>faults := tl (faults s)\<rparr>)
         | Inr (v, t) \<Rightarrow> (Inr v, s\<lparr>tasks_table := t, faults := tl (faults s)\<rparr>)))"

definition on_table :: "(db \<Rightarrow> 'a \<times> db) \<Rightarrow> db option \<Rightarrow> exn + 'a \<times> db option" where
  "on_table f t =
     (case t of None \<Rightarrow> Inl SQLiteError | Some d \<Rightarrow> Inr (fst (f d), Some (snd (f d))))"

text \<open>\<^verbatim>\<open>SQLite.openDatabaseAsync(DATABASE_NAME)\<close> and \<^verbatim>\<open>database.closeAsync()\<close>\<close>

definition openDatabaseAsync :: "connection promise" where
  "openDatabaseAsync = lib_call (\<lambda>t. Inr (Connection, t))"

definition closeAsync :: "unit promise" where
  "closeAsync = lib_call (\<lambda>t. Inr ((), t))"

text \<open>\<^verbatim>\<open>execAsync(CREATE_TASKS_TABLE)\<close>: an existing table is kept as it is.\<close>

definition execAsync_CREATE_TASKS_TABLE :: "unit promise" where
  "execAsync_CREATE_TASKS_TABLE =
     lib_call (\<lambda>t. Inr ((), Some (case t of None \<Rightarrow> \<lparr>rows = [], sequence = 0\<rparr> | Some d \<Rightarrow> d)))"

text \<open>\<^verbatim>\<open>getFirstAsync(SELECT_TASK_COUNT)\<close>: the field \<^verbatim>\<open>count\<close> of the row it returns.\<close>

definition getFirstAsync_SELECT_TASK_COUNT :: "int promise" where
  "getFirstAsync_SELECT_TASK_COUNT = lib_call (on_table (\<lambda>d. (int (length (rows d)), d)))"

text \<open>\<^verbatim>\<open>getAllAsync(SELECT_ALL_TASKS)\<close>, \<^verbatim>\<open>ORDER BY id\<close>.\<close>

definition getAllAsync_SELECT_ALL_TASKS :: "task list promise" where
  "getAllAsync_SELECT_ALL_TASKS = lib_call (on_table (\<lambda>d. (sort_key task_id (rows d), d)))"

text \<open>\<^verbatim>\<open>getAllAsync(`SELECT * FROM tasks WHERE status = ? ORDER BY id`, [status])\<close>\<close>

definition getAllAsync_WHERE_status :: "status \<Rightarrow> task list promise" where
  "getAllAsync_WHERE_status st =
     lib_call (on_table (\<lambda>d. (sort_key task_id (filter (\<lambda>r. status r = st) (rows d)), d)))"

text \<open>
  \<^verbatim>\<open>getAllAsync(`SELECT status, COUNT(*) as count FROM tasks GROUP BY status`)\<close>: one row
  for each status that some task has, in the order of the status texts.
\<close>

definition getAllAsync_GROUP_BY_status :: "(status \<times> int) list promise" where
  "getAllAsync_GROUP_BY_status =
     lib_call (on_table (\<lambda>d.
       (filter (\<lambda>(st, n). n > 0)
          (map (\<lambda>st. (st, int (length (filter (\<lambda>r. status r = st) (rows d)))))
             [Completed, InProgress, ToDo]), d)))"

text \<open>
  \<^verbatim>\<open>runAsync(INSERT_TASK, [title, status])\<close>: the field \<^verbatim>\<open>lastInsertRowId\<close> of its
  result.  \<^verbatim>\<open>id INTEGER PRIMARY KEY AUTOINCREMENT\<close>: the new rowid is one more than the
  largest rowid the table has ever held.  The columns are \<^verbatim>\<open>TEXT NOT NULL\<close>, and a
  string, also the empty one, is not \<^verbatim>\<open>NULL\<close>.
\<close>

definition new_rowid :: "db \<Rightarrow> int" where
  "new_rowid d = fold max (map task_id (rows d)) (int (sequence d)) + 1"

definition runAsync_INSERT_TASK :: "jsstring \<Rightarrow> status \<Rightarrow> int promise" where
  "runAsync_INSERT_TASK ttl st =
     lib_call (on_table (\<lambda>d.
       (new_rowid d,
        d\<lparr>rows := rows d @ [\<lparr>task_id = new_rowid d, title = ttl, status = st\<rparr>],
          sequence := nat (new_rowid d)\<rparr>)))"

text \<open>
  \<^verbatim>\<open>runAsync(UPDATE_TASK_STATUS, [status, taskId])\<close>, \<^verbatim>\<open>runAsync(DELETE_TASK, [taskId])\<close>
  and \<^verbatim>\<open>runAsync(`DELETE FROM tasks`)\<close>: the field \<^verbatim>\<open>changes\<close> of the result, the number
  of rows the statement has changed.
\<close>

definition runAsync_UPDATE_TASK_STATUS :: "status \<Rightarrow> int \<Rightarrow> int promise" where
  "runAsync_UPDATE_TASK_STATUS st taskId =
     lib_call (on_table (\<lambda>d.
       (int (length (filter (\<lambda>r. task_id r = taskId) (rows d))),
        d\<lparr>rows := map (\<lambda>r. if task_id r = taskId then r\<lparr>status := st\<rparr> else r) (rows d)\<rparr>)))"

definition runAsync_DELETE_TASK :: "int \<Rightarrow> int promise" where
  "runAsync_DELETE_TASK taskId =
     lib_call (on_table (\<lambda>d.
       (int (length (filter (\<lambda>r. task_id r = taskId) (rows d))),
        d\<lparr>rows := filter (\<lambda>r. task_id r \<noteq> taskId) (rows d)\<rparr>)))"

definition runAsync_DELETE_FROM_tasks :: "int promise" where
  "runAsync_DELETE_FROM_tasks =
     lib_call (on_table (\<lambda>d. (int (length (rows d)), d\<lparr>rows := []\<rparr>)))"

subsection \<open>The methods of the service\<close>

text \<open>\<^verbatim>\<open>const INITIAL_TASKS = [...]\<close>\<close>

definition INITIAL_TASKS :: "(jsstring \<times> status) list" where
  "INITIAL_TASKS =
    [(str ''Plan weekly meal prep'', ToDo),
     (str ''Debug ant trail AI'', InProgress),
     (str ''Send out team retrospective summary'', Completed),
     (str ''Buy more honey dew drops'', ToDo)]"

text \<open>\<^verbatim>\<open>if (!this.database) { throw new Error('Database not initialized'); }\<close>\<close>

definition require_database :: "connection promise" where
  "require_database s = (case database s of None \<Rightarrow> throw NotInitialized s | Some c \<Rightarrow> resolve c s)"

text \<open>
  \<^verbatim>\<open>initializeDatabase\<close>: the field is assigned as soon as the database is open, before the
  table is created; any error is thrown again, wrapped.
\<close>

definition initializeDatabase :: "connection promise" where
  "initializeDatabase =
     try_catch
       (await openDatabaseAsync (\<lambda>c s.
          await execAsync_CREATE_TASKS_TABLE (\<lambda>_. resolve c) (s\<lparr>database := Some c\<rparr>)))
       (\<lambda>error. throw (InitFailed error))"

text \<open>
  \<^verbatim>\<open>seedInitialDataIfNeeded\<close>: the test of \<^verbatim>\<open>this.database\<close> stands before the \<^verbatim>\<open>try\<close>,
  and the \<^verbatim>\<open>catch\<close> throws the error again.  The loop over \<^verbatim>\<open>INITIAL_TASKS\<close> stops at
  the first insertion that throws.
\<close>

fun insert_each :: "(jsstring \<times> status) list \<Rightarrow> unit promise" where
  "insert_each [] = resolve ()"
| "insert_each ((ttl, st) # rest) = await (runAsync_INSERT_TASK ttl st) (\<lambda>_. insert_each rest)"

definition seedInitialDataIfNeeded :: "unit promise" where
  "seedInitialDataIfNeeded =
     await require_database (\<lambda>_.
       try_catch
         (await getFirstAsync_SELECT_TASK_COUNT (\<lambda>count.
            if count = 0 then insert_each INITIAL_TASKS else resolve ()))
         (\<lambda>error. throw error))"

text \<open>
  The data methods: each body stands in a \<^verbatim>\<open>try\<close> whose \<^verbatim>\<open>catch\<close> logs the error and
  returns a fixed value.
\<close>

definition getAllTasks :: "task list promise" where
  "getAllTasks =
     try_catch
       (await require_database (\<lambda>_.
          await getAllAsync_SELECT_ALL_TASKS (\<lambda>result. resolve result)))
       (\<lambda>error. resolve [])"

text \<open>
  \<^verbatim>\<open>addTask(title, status = 'To Do')\<close> of the service; the argument \<open>None\<close> is the omitted
  one.  A \<^verbatim>\<open>lastInsertRowId\<close> is truthy when it is not \<open>0\<close>; the result \<open>None\<close> is \<^verbatim>\<open>null\<close>.
\<close>

definition SQLiteService_addTask :: "jsstring \<Rightarrow> status option \<Rightarrow> task option promise" where
  "SQLiteService_addTask ttl status_arg =
     (let st = (case status_arg of None \<Rightarrow> ToDo | Some st' \<Rightarrow> st') in
      try_catch
        (await require_database (\<lambda>_.
           await (runAsync_INSERT_TASK ttl st) (\<lambda>rowid.
             if rowid \<noteq> 0
             then resolve (Some \<lparr>task_id = rowid, title = ttl, status = st\<rparr>)
             else resolve None)))
        (\<lambda>error. resolve None))"

definition updateTaskStatus :: "int \<Rightarrow> status \<Rightarrow> bool promise" where
  "updateTaskStatus taskId st =
     try_catch
       (await require_database (\<lambda>_.
          await (runAsync_UPDATE_TASK_STATUS st taskId) (\<lambda>n.
            if n > 0 then resolve True else resolve False)))
       (\<lambda>error. resolve False)"

definition deleteTask :: "int \<Rightarrow> bool promise" where
  "deleteTask taskId =
     try_catch
       (await require_database (\<lambda>_.
          await (runAsync_DELETE_TASK taskId) (\<lambda>n.
            if n > 0 then resolve True else resolve False)))
       (\<lambda>error. resolve False)"

definition getTasksByStatus :: "status \<Rightarrow> task list promise" where
  "getTasksByStatus st =
     try_catch
       (await require_database (\<lambda>_.
          await (getAllAsync_WHERE_status st) (\<lambda>result. resolve result)))
       (\<lambda>error. resolve [])"

text \<open>
  \<^verbatim>\<open>getTaskCountByStatus\<close>: the counts start at zero for the three statuses and
  \<^verbatim>\<open>result.forEach\<close> stores each row's count under its status.
\<close>

definition getTaskCountByStatus :: "(status \<Rightarrow> int) promise" where
  "getTaskCountByStatus =
     try_catch
       (await require_database (\<lambda>_.
          await getAllAsync_GROUP_BY_status (\<lambda>result.
            resolve (foldl (\<lambda>counts (st, n). counts(st := n)) (\<lambda>_. 0) result))))
       (\<lambda>error. resolve (\<lambda>_. 0))"

definition clearAllTasks :: "bool promise" where
  "clearAllTasks =
     try_catch
       (await require_database (\<lambda>_.
          await runAsync_DELETE_FROM_tasks (\<lambda>_. resolve True)))
       (\<lambda>error. resolve False)"

text \<open>
  \<^verbatim>\<open>closeDatabase\<close>: the field is set to \<^verbatim>\<open>null\<close> after \<^verbatim>\<open>closeAsync\<close> has returned; an
  error of \<^verbatim>\<open>closeAsync\<close> is logged and not thrown again.
\<close>

definition closeDatabase :: "unit promise" where
  "closeDatabase =
     try_catch
       (\<lambda>s. case database s of
               None \<Rightarrow> resolve () s
             | Some _ \<Rightarrow> await closeAsync (\<lambda>_ s'. resolve () (s'\<lparr>database := None\<rparr>)) s)
       (\<lambda>error. resolve ())"

section \<open>Properties of the task store\<close>

lemma trim_empty_iff: "trim s = [] \<longleftrightarrow> list_all isWhiteSpace s"
proof -
  have "trim s = [] \<longleftrightarrow> (\<forall>c \<in> set (dropWhile isWhiteSpace s). isWhiteSpace c)"
    by (simp add: trim_def)
  also have "\<dots> \<longleftrightarrow> dropWhile isWhiteSpace s = []"
    by (metis dropWhile_eq_Nil_conv dropWhile_idem)
  finally show ?thesis
    by (simp add: list_all_iff)
qed

text \<open>
  Claim C1, as the code has it.  When the text of the input is empty or consists of
  white space only, \<open>addTask\<close> changes nothing (the task list and the input stay as they
  are; nothing is thrown or reported).  Otherwise it appends exactly one task to the
  list, leaving the tasks before it as they are; the new task has the trimmed text as
  title, the status \<open>ToDo\<close> and the clock's reading \<open>now\<close> as id.  That id differs
  from the id of every task already in the list when no task of the list has the
  reading as its id.
\<close>

theorem addTask_contract:
  "(list_all isWhiteSpace (newTaskTitle s) \<longrightarrow> addTask now s = s) \<and>
   (\<not> list_all isWhiteSpace (newTaskTitle s) \<longrightarrow>
      tasks (addTask now s) =
        tasks s @ [\<lparr>task_id = now, title = trim (newTaskTitle s), status = ToDo\<rparr>] \<and>
      (now \<notin> task_id ` set (tasks s) \<longrightarrow>
         (\<forall>t \<in> set (tasks s). task_id t \<noteq> task_id (last (tasks (addTask now s))))))"
  by (auto simp: addTask_def trim_empty_iff Let_def)

theorem addTask_contract_witness:
  "list_all isWhiteSpace (str ''  '') \<and>
   addTask 1700000000000 \<lparr>tasks = initialTasks, newTaskTitle = str ''  ''\<rparr>
     = \<lparr>tasks = initialTasks, newTaskTitle = str ''  ''\<rparr> \<and>
   \<not> list_all isWhiteSpace (str '' Feed the ants'') \<and>
   1700000000000 \<notin> task_id ` set initialTasks \<and>
   tasks (addTask 1700000000000 \<lparr>tasks = initialTasks, newTaskTitle = str '' Feed the ants''\<rparr>)
     = initialTasks @ [\<lparr>task_id = 1700000000000, title = str ''Feed the ants'', status = ToDo\<rparr>]"
  using addTask_contract [of "\<lparr>tasks = initialTasks, newTaskTitle = str ''  ''\<rparr>" 1700000000000]
    addTask_contract [of "\<lparr>tasks = initialTasks, newTaskTitle = str '' Feed the ants''\<rparr>" 1700000000000]
  by (simp add: str_def isWhiteSpace_def trim_def initialTasks_def)

text \<open>
  The claim as written promises an id that no stored task has.  Two tasks added while
  the clock shows the same millisecond get the same id: after \<open>Feed the ants\<close> has been
  added at the reading \<open>1700000000000\<close>, adding \<open>Count the aphids\<close> at the same reading
  gives a task whose id is the id of a task of the list.
\<close>

theorem addTask_fresh_id_counterexample:
  "trim (str ''Count the aphids'') \<noteq> [] \<and>
   task_id (last (tasks (addTask 1700000000000
      ((addTask 1700000000000 \<lparr>tasks = initialTasks, newTaskTitle = str ''Feed the ants''\<rparr>)
         \<lparr>newTaskTitle := str ''Count the aphids''\<rparr>))))
   \<in> task_id ` set (tasks ((addTask 1700000000000
         \<lparr>tasks = initialTasks, newTaskTitle = str ''Feed the ants''\<rparr>)
         \<lparr>newTaskTitle := str ''Count the aphids''\<rparr>))"
  by (simp add: addTask_def str_def isWhiteSpace_def trim_def initialTasks_def)

section \<open>Properties of the drag gesture\<close>

lemma indexOf_COLUMNS:
  "indexOf COLUMNS ToDo = 0" "indexOf COLUMNS InProgress = 1" "indexOf COLUMNS Completed = 2"
  by (simp_all add: indexOf_def COLUMNS_def)

lemma array_at_COLUMNS:
  "array_at COLUMNS 0 = Some ToDo" "array_at COLUMNS 1 = Some InProgress"
  "array_at COLUMNS 2 = Some Completed"
  by (simp_all add: array_at_def COLUMNS_def)

lemma length_COLUMNS: "int (length COLUMNS) = 3"
  by (simp add: COLUMNS_def)

text \<open>
  Claim C2, as the code has it.  A release whose displacement has an absolute value of
  at most 50 makes no call of \<open>moveTask\<close> (so 49 makes none, and neither does 50).  A
  displacement above 50 on a task that is not \<open>Completed\<close> makes exactly one call, for the
  dragged task and the status one index higher; a displacement below \<open>-50\<close> on a task
  that is not \<open>ToDo\<close> makes exactly one call, for the status one index lower.
\<close>

theorem gesture_threshold:
  "(\<bar>dx\<bar> \<le> 50 \<longrightarrow> onPanResponderRelease task dx = None) \<and>
   (dx > 50 \<and> status task \<noteq> Completed \<longrightarrow>
      (\<exists>s'. onPanResponderRelease task dx = Some (task_id task, Some s') \<and>
            indexOf COLUMNS s' = indexOf COLUMNS (status task) + 1)) \<and>
   (dx < - 50 \<and> status task \<noteq> ToDo \<longrightarrow>
      (\<exists>s'. onPanResponderRelease task dx = Some (task_id task, Some s') \<and>
            indexOf COLUMNS s' = indexOf COLUMNS (status task) - 1))"
proof (cases "status task")
  case ToDo
  then show ?thesis
    by (simp add: onPanResponderRelease_def newIndex_def indexOf_COLUMNS array_at_COLUMNS
        length_COLUMNS)
next
  case InProgress
  then show ?thesis
    by (simp add: onPanResponderRelease_def newIndex_def indexOf_COLUMNS array_at_COLUMNS
        length_COLUMNS)
next
  case Completed
  then show ?thesis
    by (simp add: onPanResponderRelease_def newIndex_def indexOf_COLUMNS array_at_COLUMNS
        length_COLUMNS)
qed

theorem gesture_threshold_witness:
  "\<bar>49 :: real\<bar> \<le> 50 \<and> (51 :: real) > 50 \<and> (- 51 :: real) < - 50 \<and>
   onPanResponderRelease \<lparr>task_id = 1, title = str ''Plan weekly meal prep'', status = ToDo\<rparr> 49 = None \<and>
   onPanResponderRelease \<lparr>task_id = 1, title = str ''Plan weekly meal prep'', status = ToDo\<rparr> 51 = Some (1, Some InProgress) \<and>
   onPanResponderRelease \<lparr>task_id = 3, title = str ''Send out team retrospective summary'', status = Completed\<rparr> (- 51) = Some (3, Some InProgress)"
  using gesture_threshold [of 49 "\<lparr>task_id = 1, title = str ''Plan weekly meal prep'', status = ToDo\<rparr>"]
    gesture_threshold [of 51 "\<lparr>task_id = 1, title = str ''Plan weekly meal prep'', status = ToDo\<rparr>"]
    gesture_threshold [of "- 51" "\<lparr>task_id = 3, title = str ''Send out team retrospective summary'', status = Completed\<rparr>"]
  by (simp add: onPanResponderRelease_def newIndex_def indexOf_COLUMNS array_at_COLUMNS
        length_COLUMNS)

text \<open>
  The claim as written has a transition for every displacement that is not below 50.
  The test of the code is \<^verbatim>\<open>Math.abs(gestureState.dx) > 50\<close>: at exactly 50, on a task that
  is \<open>ToDo\<close>, no call is made.
\<close>

theorem gesture_threshold_counterexample:
  "\<not> \<bar>50 :: real\<bar> < 50 \<and>
   status \<lparr>task_id = 1, title = str ''Plan weekly meal prep'', status = ToDo\<rparr> \<noteq> Completed \<and>
   onPanResponderRelease \<lparr>task_id = 1, title = str ''Plan weekly meal prep'', status = ToDo\<rparr> 50 = None"
  by (simp add: onPanResponderRelease_def)

text \<open>
  Claim C3.  A displacement above 50 on a \<open>Completed\<close> task (index 2) makes no call of
  \<open>moveTask\<close>, and neither does a displacement below \<open>-50\<close> on a \<open>ToDo\<close> task (index 0).
  For every task and displacement the index \<open>newIndex\<close> is 0, 1 or 2, so that the read
  \<^verbatim>\<open>COLUMNS[newIndex]\<close> is a status and never \<^verbatim>\<open>undefined\<close>.
\<close>

theorem gesture_clamped:
  "(dx > 50 \<and> status task = Completed \<longrightarrow> onPanResponderRelease task dx = None) \<and>
   (dx < - 50 \<and> status task = ToDo \<longrightarrow> onPanResponderRelease task dx = None) \<and>
   indexOf COLUMNS Completed = 2 \<and> indexOf COLUMNS ToDo = 0 \<and>
   newIndex task dx \<in> {0, 1, 2} \<and>
   (\<exists>s'. array_at COLUMNS (newIndex task dx) = Some s')"
  by (cases "status task")
    (simp_all add: onPanResponderRelease_def newIndex_def indexOf_COLUMNS array_at_COLUMNS
        length_COLUMNS)

theorem gesture_clamped_witness:
  "(60 :: real) > 50 \<and>
   onPanResponderRelease \<lparr>task_id = 3, title = str ''Send out team retrospective summary'', status = Completed\<rparr> 60 = None \<and>
   (- 60 :: real) < - 50 \<and>
   onPanResponderRelease \<lparr>task_id = 1, title = str ''Plan weekly meal prep'', status = ToDo\<rparr> (- 60) = None \<and>
   newIndex \<lparr>task_id = 3, title = str ''Send out team retrospective summary'', status = Completed\<rparr> 60 = 2 \<and>
   newIndex \<lparr>task_id = 1, title = str ''Plan weekly meal prep'', status = ToDo\<rparr> (- 60) = 0"
  using gesture_clamped [of 60 "\<lparr>task_id = 3, title = str ''Send out team retrospective summary'', status = Completed\<rparr>"]
    gesture_clamped [of "- 60" "\<lparr>task_id = 1, title = str ''Plan weekly meal prep'', status = ToDo\<rparr>"]
  by (simp add: newIndex_def indexOf_COLUMNS length_COLUMNS)

section \<open>Properties of the grouping and of the status update\<close>

lemma groupedTasks_eq:
  "groupedTasks ts st = Some (filter (\<lambda>task. status task = st) ts)"
  by (cases st) (simp_all add: groupedTasks_def COLUMNS_def)

lemma filter_status_mset:
  "mset (filter (\<lambda>t. status t = ToDo) ts) + mset (filter (\<lambda>t. status t = InProgress) ts)
     + mset (filter (\<lambda>t. status t = Completed) ts) = mset ts"
proof (induction ts)
  case Nil
  show ?case by simp
next
  case (Cons t ts)
  then show ?case by (cases "status t") simp_all
qed

text \<open>
  Claim C4.  Whatever the screen's state \<open>s\<close> at the start and whatever the sequence
  \<open>acts\<close> of input changes, additions and status changes that follows, the object that
  \<open>groupedTasks\<close> builds from the resulting task list has a group under each of the three
  statuses; no task is in two groups; the groups together hold every task of the list as
  often as the list does; and each group is a subsequence of the list, so its tasks stand
  in the order of the list.
\<close>

theorem groupedTasks_partition:
  "\<exists>todo prog done.
     groupedTasks (tasks (run s acts)) ToDo = Some todo \<and>
     groupedTasks (tasks (run s acts)) InProgress = Some prog \<and>
     groupedTasks (tasks (run s acts)) Completed = Some done \<and>
     set todo \<inter> set prog = {} \<and> set todo \<inter> set done = {} \<and> set prog \<inter> set done = {} \<and>
     mset todo + mset prog + mset done = mset (tasks (run s acts)) \<and>
     subseq todo (tasks (run s acts)) \<and> subseq prog (tasks (run s acts)) \<and>
     subseq done (tasks (run s acts))"
proof -
  let ?ts = "tasks (run s acts)"
  let ?g = "\<lambda>st. filter (\<lambda>t. status t = st) ?ts"
  have "set (?g ToDo) \<inter> set (?g InProgress) = {}" "set (?g ToDo) \<inter> set (?g Completed) = {}"
    "set (?g InProgress) \<inter> set (?g Completed) = {}"
    by auto
  moreover have "mset (?g ToDo) + mset (?g InProgress) + mset (?g Completed) = mset ?ts"
    by (rule filter_status_mset)
  moreover have "subseq (?g ToDo) ?ts" "subseq (?g InProgress) ?ts" "subseq (?g Completed) ?ts"
    by simp_all
  ultimately show ?thesis
    by (simp add: groupedTasks_eq)
qed

theorem groupedTasks_partition_witness:
  "groupedTasks (tasks (run initialScreen
      [ChangeText (str ''Feed the ants''), AddTask 1700000000000, MoveTask 2 Completed,
       MoveTaskToCompleted 1])) ToDo
     = Some [\<lparr>task_id = 4, title = str ''Buy more honey dew drops'', status = ToDo\<rparr>,
             \<lparr>task_id = 1700000000000, title = str ''Feed the ants'', status = ToDo\<rparr>] \<and>
   groupedTasks (tasks (run initialScreen
      [ChangeText (str ''Feed the ants''), AddTask 1700000000000, MoveTask 2 Completed,
       MoveTaskToCompleted 1])) InProgress = Some [] \<and>
   groupedTasks (tasks (run initialScreen
      [ChangeText (str ''Feed the ants''), AddTask 1700000000000, MoveTask 2 Completed,
       MoveTaskToCompleted 1])) Completed
     = Some [\<lparr>task_id = 1, title = str ''Plan weekly meal prep'', status = Completed\<rparr>,
             \<lparr>task_id = 2, title = str ''Debug ant trail AI'', status = Completed\<rparr>,
             \<lparr>task_id = 3, title = str ''Send out team retrospective summary'', status = Completed\<rparr>]"
  using groupedTasks_partition [of initialScreen
      "[ChangeText (str ''Feed the ants''), AddTask 1700000000000, MoveTask 2 Completed,
       MoveTaskToCompleted 1]"]
  by (simp add: groupedTasks_eq run_def initialScreen_def addTask_def moveTask_def
      moveTaskToCompleted_def initialTasks_def trim_def str_def isWhiteSpace_def)

lemma moveTask_length: "length (moveTask ts taskId newStatus) = length ts"
  by (simp add: moveTask_def)

lemma moveTask_absent:
  "\<forall>t \<in> set ts. task_id t \<noteq> taskId \<Longrightarrow> moveTask ts taskId newStatus = ts"
  by (induction ts) (simp_all add: moveTask_def)

text \<open>
  Claim C5.  \<open>moveTask\<close> on a list in which no task has the id returns the list as it
  is.  In every case the result has the length of the list, and at each position it
  holds the task of the list at that position: with the new status and nothing else
  changed when the task has the id, and unchanged otherwise.  So the ids and the titles,
  position by position, are those of the list.
\<close>

theorem moveTask_frame:
  "((\<forall>t \<in> set ts. task_id t \<noteq> taskId) \<longrightarrow> moveTask ts taskId newStatus = ts) \<and>
   length (moveTask ts taskId newStatus) = length ts \<and>
   (\<forall>i < length ts.
      moveTask ts taskId newStatus ! i =
        (if task_id (ts ! i) = taskId then (ts ! i)\<lparr>status := newStatus\<rparr> else ts ! i)) \<and>
   map task_id (moveTask ts taskId newStatus) = map task_id ts \<and>
   map title (moveTask ts taskId newStatus) = map title ts"
  by (simp add: moveTask_absent moveTask_length) (simp add: moveTask_def)

theorem moveTask_frame_witness:
  "9 \<notin> task_id ` set initialTasks \<and>
   moveTask initialTasks 9 Completed = initialTasks \<and>
   (1 :: nat) < length initialTasks \<and>
   moveTask initialTasks 2 Completed ! 1 =
     \<lparr>task_id = 2, title = str ''Debug ant trail AI'', status = Completed\<rparr> \<and>
   moveTask initialTasks 2 Completed ! 0 = initialTasks ! 0 \<and>
   length (moveTask initialTasks 2 Completed) = 4"
  using moveTask_frame [of initialTasks 9 Completed] moveTask_frame [of initialTasks 2 Completed]
  by (simp add: initialTasks_def)

text \<open>
  Claim C8.  From the four initial tasks, \<open>moveTask\<close> with id 2 and \<open>Completed\<close> gives a
  \<open>Completed\<close> group of the tasks 2 and 3 in this order, with the titles
  \<open>Debug ant trail AI\<close> and \<open>Send out team retrospective summary\<close>; the groups then
  count 2 tasks under \<open>ToDo\<close>, none under \<open>InProgress\<close> and 2 under \<open>Completed\<close>.
\<close>

theorem example_scenario:
  "groupedTasks (moveTask initialTasks 2 Completed) Completed =
     Some [\<lparr>task_id = 2, title = str ''Debug ant trail AI'', status = Completed\<rparr>,
           \<lparr>task_id = 3, title = str ''Send out team retrospective summary'', status = Completed\<rparr>] \<and>
   map_option (map title) (groupedTasks (moveTask initialTasks 2 Completed) Completed) =
     Some [str ''Debug ant trail AI'', str ''Send out team retrospective summary''] \<and>
   map_option length (groupedTasks (moveTask initialTasks 2 Completed) ToDo) = Some 2 \<and>
   map_option length (groupedTasks (moveTask initialTasks 2 Completed) InProgress) = Some 0 \<and>
   map_option length (groupedTasks (moveTask initialTasks 2 Completed) Completed) = Some 2"
  by (simp add: groupedTasks_eq moveTask_def initialTasks_def)

section \<open>Properties of the persistence adapter\<close>

lemma try_catch_default_Inr: "\<exists>v. fst (try_catch body (\<lambda>error. resolve d) s) = Inr v"
  by (cases "body s" rule: prod.exhaust; cases "fst (body s)")
     (auto simp: try_catch_def resolve_def)

lemma try_catch_default_fail:
  "isl (fst (body s)) \<Longrightarrow> fst (try_catch body (\<lambda>error. resolve d) s) = Inr d"
  by (cases "body s" rule: prod.exhaust) (auto simp: try_catch_def resolve_def isl_def)

lemma await_fail: "isl (fst (m s)) \<Longrightarrow> isl (fst (await m k s))"
  by (cases "m s" rule: prod.exhaust) (auto simp: await_def isl_def)

lemma require_database_None: "database s = None \<Longrightarrow> require_database s = (Inl NotInitialized, s)"
  by (simp add: require_database_def throw_def)

lemma require_database_Some:
  "database s = Some c \<Longrightarrow> await require_database (\<lambda>_. m) s = m s"
  by (simp add: require_database_def resolve_def await_def)

lemma guarded_fail:
  "database s = None \<or> isl (fst (m s)) \<Longrightarrow> isl (fst (await require_database (\<lambda>_. await m k) s))"
proof (cases "database s")
  case None
  then show ?thesis by (simp add: await_def require_database_None)
next
  case (Some c)
  assume "database s = None \<or> isl (fst (m s))"
  with Some have "isl (fst (m s))" by simp
  then show ?thesis using Some by (simp add: require_database_Some await_fail)
qed

lemma guarded_None:
  "database s = None \<Longrightarrow>
   try_catch (await require_database k) (\<lambda>error. resolve d) s = (Inr d, s)"
  by (simp add: try_catch_def await_def require_database_None resolve_def)

text \<open>
  Claim C6, as the code has it.  The service holds no connection when it is constructed,
  and again after a \<open>closeDatabase\<close> whose \<open>closeAsync\<close> has not thrown.  While it holds
  none, \<open>seedInitialDataIfNeeded\<close> throws the error \<open>NotInitialized\<close> to its caller.
  Each other data method throws that error inside its own \<^verbatim>\<open>try\<close>, catches it, and
  returns its fixed value to the caller (the empty list, \<^verbatim>\<open>null\<close>, \<^verbatim>\<open>false\<close>, the counts
  that are all zero) without a call of the library: the state stays as it is, so the
  same holds until \<open>initializeDatabase\<close> is called.
\<close>

theorem adapter_not_initialized:
  "database newService = None \<and>
   (fst (closeAsync s) = Inr () \<longrightarrow> database (snd (closeDatabase s)) = None) \<and>
   (database s = None \<longrightarrow>
      seedInitialDataIfNeeded s = (Inl NotInitialized, s) \<and>
      getAllTasks s = (Inr [], s) \<and>
      SQLiteService_addTask ttl status_arg s = (Inr None, s) \<and>
      updateTaskStatus taskId st s = (Inr False, s) \<and>
      deleteTask taskId s = (Inr False, s) \<and>
      getTasksByStatus st s = (Inr [], s) \<and>
      getTaskCountByStatus s = (Inr (\<lambda>_. 0), s) \<and>
      clearAllTasks s = (Inr False, s))"
proof -
  have "database newService = None"
    by (simp add: newService_def)
  moreover have "fst (closeAsync s) = Inr () \<longrightarrow> database (snd (closeDatabase s)) = None"
    by (cases "closeAsync s" rule: prod.exhaust)
       (auto simp: closeDatabase_def try_catch_def await_def resolve_def split: option.splits)
  moreover have "database s = None \<longrightarrow> seedInitialDataIfNeeded s = (Inl NotInitialized, s)"
    by (simp add: seedInitialDataIfNeeded_def await_def require_database_None)
  ultimately show ?thesis
    by (simp add: guarded_None getAllTasks_def SQLiteService_addTask_def updateTaskStatus_def
        deleteTask_def getTasksByStatus_def getTaskCountByStatus_def clearAllTasks_def Let_def)
qed

theorem adapter_not_initialized_witness:
  "fst (closeAsync (snd (initializeDatabase newService))) = Inr () \<and>
   database (snd (closeDatabase (snd (initializeDatabase newService)))) = None \<and>
   fst (seedInitialDataIfNeeded (snd (closeDatabase (snd (initializeDatabase newService)))))
     = Inl NotInitialized \<and>
   fst (updateTaskStatus 2 Completed (snd (closeDatabase (snd (initializeDatabase newService)))))
     = Inr False"
  using adapter_not_initialized [where s = "snd (initializeDatabase newService)"]
    adapter_not_initialized [where s = "snd (closeDatabase (snd (initializeDatabase newService)))"
      and taskId = 2 and st = Completed]
  by (simp add: closeDatabase_def initializeDatabase_def newService_def
      try_catch_def await_def resolve_def throw_def require_database_def lib_call_def
      openDatabaseAsync_def closeAsync_def execAsync_CREATE_TASKS_TABLE_def)

text \<open>
  The claim as written has every data method fail with the error.  After
  \<open>initializeDatabase\<close> and \<open>closeDatabase\<close> on a new service the connection is gone, and
  \<open>getAllTasks\<close> resolves to the empty list; it does so on the new service as well.
\<close>

theorem adapter_not_initialized_counterexample:
  "database (snd (closeDatabase (snd (initializeDatabase newService)))) = None \<and>
   fst (getAllTasks (snd (closeDatabase (snd (initializeDatabase newService))))) = Inr [] \<and>
   fst (getAllTasks (snd (closeDatabase (snd (initializeDatabase newService)))))
     \<noteq> Inl NotInitialized \<and>
   fst (getAllTasks newService) = Inr []"
  by (simp add: getAllTasks_def closeDatabase_def initializeDatabase_def newService_def
      try_catch_def await_def resolve_def throw_def require_database_def lib_call_def
      openDatabaseAsync_def closeAsync_def execAsync_CREATE_TASKS_TABLE_def)

text \<open>
  Claim C7.  None of the seven data methods rejects: in every state each resolves to a
  value.  When the service holds no connection, or when the call of the library that the
  method makes throws, \<open>getAllTasks\<close> and \<open>getTasksByStatus\<close> resolve to the empty list,
  \<open>getTaskCountByStatus\<close> to the counts that are all zero, \<open>updateTaskStatus\<close>,
  \<open>deleteTask\<close> and \<open>clearAllTasks\<close> to \<^verbatim>\<open>false\<close>, and \<open>addTask\<close> to \<^verbatim>\<open>null\<close>.
\<close>

theorem safe_defaults:
  "(\<exists>v. fst (getAllTasks s) = Inr v) \<and>
   (database s = None \<or> isl (fst (getAllAsync_SELECT_ALL_TASKS s)) \<longrightarrow>
      fst (getAllTasks s) = Inr []) \<and>
   (\<exists>v. fst (getTasksByStatus st s) = Inr v) \<and>
   (database s = None \<or> isl (fst (getAllAsync_WHERE_status st s)) \<longrightarrow>
      fst (getTasksByStatus st s) = Inr []) \<and>
   (\<exists>v. fst (getTaskCountByStatus s) = Inr v) \<and>
   (database s = None \<or> isl (fst (getAllAsync_GROUP_BY_status s)) \<longrightarrow>
      fst (getTaskCountByStatus s) = Inr (\<lambda>_. 0)) \<and>
   (\<exists>v. fst (updateTaskStatus taskId st s) = Inr v) \<and>
   (database s = None \<or> isl (fst (runAsync_UPDATE_TASK_STATUS st taskId s)) \<longrightarrow>
      fst (updateTaskStatus taskId st s) = Inr False) \<and>
   (\<exists>v. fst (deleteTask taskId s) = Inr v) \<and>
   (database s = None \<or> isl (fst (runAsync_DELETE_TASK taskId s)) \<longrightarrow>
      fst (deleteTask taskId s) = Inr False) \<and>
   (\<exists>v. fst (clearAllTasks s) = Inr v) \<and>
   (database s = None \<or> isl (fst (runAsync_DELETE_FROM_tasks s)) \<longrightarrow>
      fst (clearAllTasks s) = Inr False) \<and>
   (\<exists>v. fst (SQLiteService_addTask ttl status_arg s) = Inr v) \<and>
   (database s = None \<or>
    isl (fst (runAsync_INSERT_TASK ttl (case status_arg of None \<Rightarrow> ToDo | Some st' \<Rightarrow> st') s)) \<longrightarrow>
      fst (SQLiteService_addTask ttl status_arg s) = Inr None)"
  unfolding getAllTasks_def getTasksByStatus_def getTaskCountByStatus_def updateTaskStatus_def
    deleteTask_def clearAllTasks_def SQLiteService_addTask_def Let_def
  by (intro conjI impI try_catch_default_Inr try_catch_default_fail guarded_fail)

theorem safe_defaults_witness:
  "isl (fst (getAllAsync_SELECT_ALL_TASKS failingService)) \<and>
   fst (getAllTasks failingService) = Inr [] \<and>
   isl (fst (runAsync_UPDATE_TASK_STATUS Completed 2 failingService)) \<and>
   fst (updateTaskStatus 2 Completed failingService) = Inr False \<and>
   isl (fst (runAsync_INSERT_TASK (str ''Feed the ants'') ToDo failingService)) \<and>
   fst (SQLiteService_addTask (str ''Feed the ants'') (Some ToDo) failingService) = Inr None \<and>
   database newService = None \<and>
   fst (clearAllTasks newService) = Inr False"
  using safe_defaults [where s = failingService and st = Completed and taskId = 2]
    safe_defaults [where s = failingService and status_arg = "Some ToDo"
      and ttl = "str ''Feed the ants''"]
    safe_defaults [where s = newService]
  by (simp add: failingService_def newService_def lib_call_def getAllAsync_SELECT_ALL_TASKS_def
      runAsync_UPDATE_TASK_STATUS_def runAsync_INSERT_TASK_def)

lemma lib_call_no_fault:
  "True \<notin> set (faults s) \<Longrightarrow>
   lib_call stmt s =
     (case stmt (tasks_table s) of
        Inl e \<Rightarrow> (Inl e, s\<lparr>faults := tl (faults s)\<rparr>)
      | Inr (v, t) \<Rightarrow> (Inr v, s\<lparr>tasks_table := t, faults := tl (faults s)\<rparr>))"
  by (cases "faults s") (auto simp: lib_call_def split: list.splits bool.splits)

lemma no_fault_tl: "True \<notin> set fs \<Longrightarrow> True \<notin> set (tl fs)"
  by (cases fs) simp_all

lemma count_no_fault:
  "True \<notin> set (faults s) \<Longrightarrow> tasks_table s = Some d \<Longrightarrow>
   getFirstAsync_SELECT_TASK_COUNT s = (Inr (int (length (rows d))), s\<lparr>faults := tl (faults s)\<rparr>)"
  by (simp add: getFirstAsync_SELECT_TASK_COUNT_def lib_call_no_fault on_table_def)

lemma insert_no_fault:
  "True \<notin> set (faults s) \<Longrightarrow> tasks_table s = Some d \<Longrightarrow>
   runAsync_INSERT_TASK ttl st s =
     (Inr (new_rowid d),
      s\<lparr>tasks_table := Some (d\<lparr>rows := rows d @ [\<lparr>task_id = new_rowid d, title = ttl, status = st\<rparr>],
                              sequence := nat (new_rowid d)\<rparr>),
        faults := tl (faults s)\<rparr>)"
  by (simp add: runAsync_INSERT_TASK_def lib_call_no_fault on_table_def)

lemma insert_each_no_fault:
  "True \<notin> set (faults s) \<Longrightarrow> tasks_table s = Some d \<Longrightarrow>
   \<exists>d' new. fst (insert_each items s) = Inr () \<and>
        tasks_table (snd (insert_each items s)) = Some d' \<and>
        database (snd (insert_each items s)) = database s \<and>
        True \<notin> set (faults (snd (insert_each items s))) \<and>
        rows d' = rows d @ new \<and>
        map (\<lambda>r. (title r, status r)) new = items"
proof (induction items arbitrary: s d)
  case Nil
  then show ?case by (simp add: resolve_def)
next
  case (Cons item items)
  obtain ttl st where item: "item = (ttl, st)" by (cases item)
  let ?r = "\<lparr>task_id = new_rowid d, title = ttl, status = st\<rparr>"
  let ?d1 = "d\<lparr>rows := rows d @ [?r], sequence := nat (new_rowid d)\<rparr>"
  let ?s1 = "s\<lparr>tasks_table := Some ?d1, faults := tl (faults s)\<rparr>"
  have step: "insert_each (item # items) s = insert_each items ?s1"
    using Cons.prems by (simp add: item await_def insert_no_fault)
  have "True \<notin> set (faults ?s1)" "tasks_table ?s1 = Some ?d1"
    using Cons.prems by (simp_all add: no_fault_tl)
  from Cons.IH [OF this] obtain d' new where d':
    "fst (insert_each items ?s1) = Inr ()"
    "tasks_table (snd (insert_each items ?s1)) = Some d'"
    "database (snd (insert_each items ?s1)) = database ?s1"
    "True \<notin> set (faults (snd (insert_each items ?s1)))"
    "rows d' = rows ?d1 @ new"
    "map (\<lambda>r. (title r, status r)) new = items"
    by blast
  have "rows d' = rows d @ (?r # new)"
    using d'(5) by simp
  moreover have "map (\<lambda>r. (title r, status r)) (?r # new) = item # items"
    using d'(6) by (simp add: item)
  ultimately show ?case
    unfolding step using d'(1-4) by (intro exI [of _ d'] exI [of _ "?r # new"]) simp
qed

lemma try_catch_rethrow: "try_catch body (\<lambda>error. throw error) s = body s"
  by (cases "body s" rule: prod.exhaust; cases "fst (body s)")
     (auto simp: try_catch_def throw_def)

lemma seed_unfold:
  assumes "database s \<noteq> None" "tasks_table s = Some d" "True \<notin> set (faults s)"
  shows "seedInitialDataIfNeeded s =
           (if rows d = [] then insert_each INITIAL_TASKS (s\<lparr>faults := tl (faults s)\<rparr>)
            else (Inr (), s\<lparr>faults := tl (faults s)\<rparr>))"
proof -
  from assms(1) obtain c where "database s = Some c" by auto
  then have "seedInitialDataIfNeeded s =
      await getFirstAsync_SELECT_TASK_COUNT
        (\<lambda>count. if count = 0 then insert_each INITIAL_TASKS else resolve ()) s"
    by (simp add: seedInitialDataIfNeeded_def require_database_Some try_catch_rethrow)
  then show ?thesis
    using assms(2,3) by (simp add: await_def count_no_fault resolve_def)
qed

lemma seed_nonempty:
  assumes "database s \<noteq> None" "tasks_table s = Some d" "True \<notin> set (faults s)" "rows d \<noteq> []"
  shows "seedInitialDataIfNeeded s = (Inr (), s\<lparr>faults := tl (faults s)\<rparr>)"
  using assms by (simp add: seed_unfold)

lemma seed_empty:
  assumes "database s \<noteq> None" "tasks_table s = Some d" "True \<notin> set (faults s)" "rows d = []"
  shows "\<exists>d'. fst (seedInitialDataIfNeeded s) = Inr () \<and>
              tasks_table (snd (seedInitialDataIfNeeded s)) = Some d' \<and>
              database (snd (seedInitialDataIfNeeded s)) \<noteq> None \<and>
              True \<notin> set (faults (snd (seedInitialDataIfNeeded s))) \<and>
              map (\<lambda>r. (title r, status r)) (rows d') = INITIAL_TASKS"
proof -
  let ?s1 = "s\<lparr>faults := tl (faults s)\<rparr>"
  have eq: "seedInitialDataIfNeeded s = insert_each INITIAL_TASKS ?s1"
    using assms by (simp add: seed_unfold)
  have "True \<notin> set (faults ?s1)" "tasks_table ?s1 = Some d"
    using assms by (simp_all add: no_fault_tl)
  from insert_each_no_fault [OF this, of INITIAL_TASKS] show ?thesis
    unfolding eq using assms(1,4) by auto
qed

lemma initialize_keeps_rows:
  "(case tasks_table (snd (initializeDatabase s)) of
      None \<Rightarrow> tasks_table s = None
    | Some d' \<Rightarrow> rows d' = (case tasks_table s of None \<Rightarrow> [] | Some d0 \<Rightarrow> rows d0))"
  by (simp add: initializeDatabase_def try_catch_def await_def resolve_def throw_def lib_call_def
      openDatabaseAsync_def execAsync_CREATE_TASKS_TABLE_def
      split: list.splits bool.splits option.splits)

text \<open>
  Claim C9.  Let the service hold a connection, let the table exist in any state \<open>d\<close>,
  and let no coming call of the library throw.  Then \<open>seedInitialDataIfNeeded\<close> returns
  normally; on a table without rows it leaves a table whose rows are, in order, the
  titles and statuses of \<open>INITIAL_TASKS\<close>; on a table with rows it leaves the table as
  it is; and a second call right after the first leaves the table as the first call has
  left it.  In every state, \<open>initializeDatabase\<close> adds no row: the table after it, if
  there is one, has the rows it had before (none when it did not exist).
\<close>

theorem seed_idempotent:
  "(database s \<noteq> None \<and> tasks_table s = Some d \<and> True \<notin> set (faults s) \<longrightarrow>
      fst (seedInitialDataIfNeeded s) = Inr () \<and>
      (rows d = [] \<longrightarrow>
         (\<exists>d'. tasks_table (snd (seedInitialDataIfNeeded s)) = Some d' \<and>
               map (\<lambda>r. (title r, status r)) (rows d') = INITIAL_TASKS)) \<and>
      (rows d \<noteq> [] \<longrightarrow> tasks_table (snd (seedInitialDataIfNeeded s)) = Some d) \<and>
      fst (seedInitialDataIfNeeded (snd (seedInitialDataIfNeeded s))) = Inr () \<and>
      tasks_table (snd (seedInitialDataIfNeeded (snd (seedInitialDataIfNeeded s))))
        = tasks_table (snd (seedInitialDataIfNeeded s))) \<and>
   (case tasks_table (snd (initializeDatabase s)) of
      None \<Rightarrow> tasks_table s = None
    | Some d' \<Rightarrow> rows d' = (case tasks_table s of None \<Rightarrow> [] | Some d0 \<Rightarrow> rows d0))"
proof (intro conjI impI; (elim conjE)?)
  show "case tasks_table (snd (initializeDatabase s)) of
      None \<Rightarrow> tasks_table s = None
    | Some d' \<Rightarrow> rows d' = (case tasks_table s of None \<Rightarrow> [] | Some d0 \<Rightarrow> rows d0)"
    by (rule initialize_keeps_rows)
next
  assume a: "database s \<noteq> None" "tasks_table s = Some d" "True \<notin> set (faults s)"
  let ?s1 = "snd (seedInitialDataIfNeeded s)"
  have first: "\<exists>d1. fst (seedInitialDataIfNeeded s) = Inr () \<and> tasks_table ?s1 = Some d1 \<and>
      database ?s1 \<noteq> None \<and> True \<notin> set (faults ?s1) \<and> rows d1 \<noteq> [] \<and>
      (rows d = [] \<longrightarrow> map (\<lambda>r. (title r, status r)) (rows d1) = INITIAL_TASKS) \<and>
      (rows d \<noteq> [] \<longrightarrow> d1 = d)"
  proof (cases "rows d = []")
    case True
    from seed_empty [OF a True] obtain d' where
      "fst (seedInitialDataIfNeeded s) = Inr ()" "tasks_table ?s1 = Some d'"
      "database ?s1 \<noteq> None" "True \<notin> set (faults ?s1)"
      "map (\<lambda>r. (title r, status r)) (rows d') = INITIAL_TASKS"
      by blast
    moreover from this(5) have "rows d' \<noteq> []"
      by (auto simp: INITIAL_TASKS_def)
    ultimately show ?thesis using True by auto
  next
    case False
    with a show ?thesis
      by (simp add: seed_nonempty no_fault_tl)
  qed
  then obtain d1 where d1: "fst (seedInitialDataIfNeeded s) = Inr ()" "tasks_table ?s1 = Some d1"
      "database ?s1 \<noteq> None" "True \<notin> set (faults ?s1)" "rows d1 \<noteq> []"
      "rows d = [] \<longrightarrow> map (\<lambda>r. (title r, status r)) (rows d1) = INITIAL_TASKS"
      "rows d \<noteq> [] \<longrightarrow> d1 = d"
    by blast
  show "fst (seedInitialDataIfNeeded s) = Inr ()" by (rule d1(1))
  show "\<exists>d'. tasks_table ?s1 = Some d' \<and> map (\<lambda>r. (title r, status r)) (rows d') = INITIAL_TASKS"
    if "rows d = []" using that d1(2,6) by simp
  show "tasks_table ?s1 = Some d" if "rows d \<noteq> []" using that d1(2,7) by simp
  have second: "seedInitialDataIfNeeded ?s1 = (Inr (), ?s1\<lparr>faults := tl (faults ?s1)\<rparr>)"
    using d1(3,2,4,5) by (rule seed_nonempty)
  show "fst (seedInitialDataIfNeeded ?s1) = Inr ()"
    by (simp add: second)
  show "tasks_table (snd (seedInitialDataIfNeeded ?s1)) = tasks_table ?s1"
    by (simp add: second)
qed

theorem seed_idempotent_witness:
  "database (snd (initializeDatabase newService)) \<noteq> None \<and>
   tasks_table (snd (initializeDatabase newService)) = Some \<lparr>rows = [], sequence = 0\<rparr> \<and>
   True \<notin> set (faults (snd (initializeDatabase newService))) \<and>
   fst (seedInitialDataIfNeeded (snd (initializeDatabase newService))) = Inr () \<and>
   tasks_table (snd (seedInitialDataIfNeeded (snd (initializeDatabase newService))))
     = Some \<lparr>rows = initialTasks, sequence = 4\<rparr> \<and>
   tasks_table (snd (seedInitialDataIfNeeded (snd (seedInitialDataIfNeeded
      (snd (initializeDatabase newService))))))
     = Some \<lparr>rows = initialTasks, sequence = 4\<rparr>"
proof -
  have init: "initializeDatabase newService =
      (Inr Connection, \<lparr>database = Some Connection,
         tasks_table = Some \<lparr>rows = [], sequence = 0\<rparr>, faults = []\<rparr>)"
    by (simp add: initializeDatabase_def newService_def try_catch_def await_def resolve_def
        lib_call_def openDatabaseAsync_def execAsync_CREATE_TASKS_TABLE_def)
  have seed: "tasks_table (snd (seedInitialDataIfNeeded \<lparr>database = Some Connection,
         tasks_table = Some \<lparr>rows = [], sequence = 0\<rparr>, faults = []\<rparr>))
       = Some \<lparr>rows = initialTasks, sequence = 4\<rparr>"
    by (simp add: seedInitialDataIfNeeded_def require_database_def try_catch_def await_def
        resolve_def lib_call_def on_table_def getFirstAsync_SELECT_TASK_COUNT_def
        runAsync_INSERT_TASK_def new_rowid_def INITIAL_TASKS_def initialTasks_def)
  show ?thesis
    using seed_idempotent [of "snd (initializeDatabase newService)" "\<lparr>rows = [], sequence = 0\<rparr>"]
    by (simp add: init seed)
qed

lemma fold_max_ge: "a \<le> fold max xs (a :: int)"
proof (induction xs arbitrary: a)
  case Nil
  show ?case by simp
next
  case (Cons x xs)
  have "a \<le> max x a" by simp
  also have "\<dots> \<le> fold max xs (max x a)" by (rule Cons.IH)
  finally show ?case by simp
qed

lemma new_rowid_positive: "0 < new_rowid d"
proof -
  have "0 \<le> int (sequence d)" by simp
  also have "\<dots> \<le> fold max (map task_id (rows d)) (int (sequence d))" by (rule fold_max_ge)
  finally show ?thesis by (simp add: new_rowid_def)
qed

lemma new_rowid_nonzero: "new_rowid d \<noteq> 0"
  using new_rowid_positive [of d] by simp

lemma insert_rowid_nonzero: "fst (runAsync_INSERT_TASK ttl st s) = Inr rowid \<Longrightarrow> rowid \<noteq> 0"
  by (auto simp: runAsync_INSERT_TASK_def lib_call_def on_table_def new_rowid_nonzero
      split: list.splits bool.splits option.splits)

text \<open>
  Claim C10.  \<open>addTask\<close> of the service tests neither the title nor the status.  The
  omitted status stands for \<open>ToDo\<close>.  With a connection, for every title and status, the
  method makes the insertion of exactly that title and status and leaves the state that
  the insertion leaves; when the insertion returns a rowid, the method resolves to the
  task of that rowid, title and status.  On an existing table, when the call does not
  throw, the row is appended to the table: also for the empty title and for a status
  other than \<open>ToDo\<close>.
\<close>

theorem insert_no_validation:
  "SQLiteService_addTask ttl None s = SQLiteService_addTask ttl (Some ToDo) s \<and>
   (database s \<noteq> None \<longrightarrow>
      snd (SQLiteService_addTask ttl (Some st) s) = snd (runAsync_INSERT_TASK ttl st s) \<and>
      (\<forall>rowid. fst (runAsync_INSERT_TASK ttl st s) = Inr rowid \<longrightarrow>
         fst (SQLiteService_addTask ttl (Some st) s) =
           Inr (Some \<lparr>task_id = rowid, title = ttl, status = st\<rparr>)) \<and>
      (tasks_table s = Some d \<and> True \<notin> set (take 1 (faults s)) \<longrightarrow>
         fst (SQLiteService_addTask ttl (Some st) s) =
           Inr (Some \<lparr>task_id = new_rowid d, title = ttl, status = st\<rparr>) \<and>
         tasks_table (snd (SQLiteService_addTask ttl (Some st) s)) =
           Some (d\<lparr>rows := rows d @ [\<lparr>task_id = new_rowid d, title = ttl, status = st\<rparr>],
                   sequence := nat (new_rowid d)\<rparr>)))"
proof (intro conjI impI allI; (elim conjE)?)
  show "SQLiteService_addTask ttl None s = SQLiteService_addTask ttl (Some ToDo) s"
    by (simp add: SQLiteService_addTask_def)
next
  assume db: "database s \<noteq> None"
  then obtain c where c: "database s = Some c" by auto
  let ?k = "\<lambda>rowid. if rowid \<noteq> 0
             then resolve (Some \<lparr>task_id = rowid, title = ttl, status = st\<rparr>)
             else resolve None"
  have body: "SQLiteService_addTask ttl (Some st) s =
      try_catch (await (runAsync_INSERT_TASK ttl st) ?k) (\<lambda>error. resolve None) s"
    using c by (simp add: SQLiteService_addTask_def try_catch_def require_database_Some)
  show state: "snd (SQLiteService_addTask ttl (Some st) s) = snd (runAsync_INSERT_TASK ttl st s)"
    unfolding body
    by (cases "runAsync_INSERT_TASK ttl st s" rule: prod.exhaust;
        cases "fst (runAsync_INSERT_TASK ttl st s)")
       (auto simp: try_catch_def await_def resolve_def)
  show result: "fst (SQLiteService_addTask ttl (Some st) s) =
      Inr (Some \<lparr>task_id = rowid, title = ttl, status = st\<rparr>)"
    if "fst (runAsync_INSERT_TASK ttl st s) = Inr rowid" for rowid
    unfolding body using that insert_rowid_nonzero [OF that]
    by (cases "runAsync_INSERT_TASK ttl st s" rule: prod.exhaust)
       (auto simp: try_catch_def await_def resolve_def)
  assume t: "tasks_table s = Some d" and f: "True \<notin> set (take 1 (faults s))"
  have ins: "runAsync_INSERT_TASK ttl st s =
     (Inr (new_rowid d),
      s\<lparr>tasks_table := Some (d\<lparr>rows := rows d @ [\<lparr>task_id = new_rowid d, title = ttl, status = st\<rparr>],
                              sequence := nat (new_rowid d)\<rparr>),
        faults := tl (faults s)\<rparr>)"
    using t f by (cases "faults s")
      (auto simp: runAsync_INSERT_TASK_def lib_call_def on_table_def split: list.splits bool.splits)
  show "fst (SQLiteService_addTask ttl (Some st) s) =
      Inr (Some \<lparr>task_id = new_rowid d, title = ttl, status = st\<rparr>)"
    using result [of "new_rowid d"] by (simp add: ins)
  show "tasks_table (snd (SQLiteService_addTask ttl (Some st) s)) =
      Some (d\<lparr>rows := rows d @ [\<lparr>task_id = new_rowid d, title = ttl, status = st\<rparr>],
              sequence := nat (new_rowid d)\<rparr>)"
    by (simp add: state ins)
qed

theorem insert_no_validation_witness:
  "database (snd (initializeDatabase newService)) \<noteq> None \<and>
   tasks_table (snd (initializeDatabase newService)) = Some \<lparr>rows = [], sequence = 0\<rparr> \<and>
   True \<notin> set (take 1 (faults (snd (initializeDatabase newService)))) \<and>
   fst (SQLiteService_addTask [] (Some Completed) (snd (initializeDatabase newService)))
     = Inr (Some \<lparr>task_id = 1, title = [], status = Completed\<rparr>) \<and>
   tasks_table (snd (SQLiteService_addTask [] (Some Completed) (snd (initializeDatabase newService))))
     = Some \<lparr>rows = [\<lparr>task_id = 1, title = [], status = Completed\<rparr>], sequence = 1\<rparr>"
proof -
  have init: "initializeDatabase newService =
      (Inr Connection, \<lparr>database = Some Connection,
         tasks_table = Some \<lparr>rows = [], sequence = 0\<rparr>, faults = []\<rparr>)"
    by (simp add: initializeDatabase_def newService_def try_catch_def await_def resolve_def
        lib_call_def openDatabaseAsync_def execAsync_CREATE_TASKS_TABLE_def)
  show ?thesis
    using insert_no_validation [of "[]" "snd (initializeDatabase newService)" Completed
        "\<lparr>rows = [], sequence = 0\<rparr>"]
    by (simp add: init new_rowid_def runAsync_INSERT_TASK_def lib_call_def on_table_def)
qed

text \<open>
  The example of claim C8 on the adapter: on a table of the four initial tasks,
  \<open>updateTaskStatus\<close> with id 2 and \<open>Completed\<close> followed by \<open>getTaskCountByStatus\<close>
  gives the counts 2, 0 and 2.
\<close>

lemma adapter_example_counts:
  "map_sum (\<lambda>e. e) (\<lambda>counts. map counts [ToDo, InProgress, Completed])
     (fst (getTaskCountByStatus (snd (updateTaskStatus 2 Completed
        \<lparr>database = Some Connection,
         tasks_table = Some \<lparr>rows = initialTasks, sequence = 4\<rparr>, faults = []\<rparr>))))
   = Inr [2, 0, 2]"
  by (simp add: getTaskCountByStatus_def updateTaskStatus_def try_catch_def await_def resolve_def
      require_database_def lib_call_def on_table_def runAsync_UPDATE_TASK_STATUS_def
      getAllAsync_GROUP_BY_status_def initialTasks_def)

end
